theory Spec2Isabelle
  imports Main
begin

unbundle bit_operations_syntax

section \<open>Text primitives of the Go standard library used by the generators\<close>

text \<open>
  A Go \<open>string\<close> is modelled as an Isabelle \<open>string\<close>, one \<open>char\<close> per byte. The
  character classes below are those of the packages \<open>unicode\<close> and \<open>strings\<close> on
  ASCII text, where a byte is a rune; EDM identifiers are ASCII.
\<close>

definition ascii_upper :: string where
  "ascii_upper = ''ABCDEFGHIJKLMNOPQRSTUVWXYZ''"

definition ascii_lower :: string where
  "ascii_lower = ''abcdefghijklmnopqrstuvwxyz''"

definition unicode_IsLetter :: "char \<Rightarrow> bool" where
  "unicode_IsLetter c = (c \<in> set ascii_upper \<or> c \<in> set ascii_lower)"

definition unicode_IsDigit :: "char \<Rightarrow> bool" where
  "unicode_IsDigit c = (c \<in> set ''0123456789'')"

definition unicode_ToUpper :: "char \<Rightarrow> char" where
  "unicode_ToUpper c = (case map_of (zip ascii_lower ascii_upper) c of Some u \<Rightarrow> u | None \<Rightarrow> c)"

definition unicode_ToLower :: "char \<Rightarrow> char" where
  "unicode_ToLower c = (case map_of (zip ascii_upper ascii_lower) c of Some l \<Rightarrow> l | None \<Rightarrow> c)"

definition unicode_IsSpace :: "char \<Rightarrow> bool" where
  "unicode_IsSpace c =
     (c \<in> set [CHR 0x09, CHR 0x0A, CHR 0x0B, CHR 0x0C, CHR 0x0D, CHR '' ''])"

definition strings_ToLower :: "string \<Rightarrow> string" where
  "strings_ToLower s = map unicode_ToLower s"

definition strings_HasPrefix :: "string \<Rightarrow> string \<Rightarrow> bool" where
  "strings_HasPrefix s p = (take (length p) s = p)"

definition strings_HasSuffix :: "string \<Rightarrow> string \<Rightarrow> bool" where
  "strings_HasSuffix s p = (length p \<le> length s \<and> drop (length s - length p) s = p)"

definition strings_TrimPrefix :: "string \<Rightarrow> string \<Rightarrow> string" where
  "strings_TrimPrefix s p = (if strings_HasPrefix s p then drop (length p) s else s)"

definition strings_TrimSuffix :: "string \<Rightarrow> string \<Rightarrow> string" where
  "strings_TrimSuffix s p = (if strings_HasSuffix s p then take (length s - length p) s else s)"

text \<open>\<open>strings.LastIndex(s, sep)\<close> for a one-byte separator: the index of its last
  occurrence, or \<open>-1\<close>.\<close>

fun strings_LastIndex :: "string \<Rightarrow> char \<Rightarrow> int" where
  "strings_LastIndex [] c = - 1"
| "strings_LastIndex (x # xs) c =
     (let r = strings_LastIndex xs c
      in if 0 \<le> r then r + 1 else if x = c then 0 else - 1)"

text \<open>\<open>strings.SplitN(s, sep, 2)\<close> for a one-byte separator: the text before and after
  the first separator, or the text alone when there is none.\<close>

definition strings_SplitN2 :: "string \<Rightarrow> char \<Rightarrow> string list" where
  "strings_SplitN2 s c =
     (if c \<in> set s then [takeWhile (\<lambda>x. x \<noteq> c) s, tl (dropWhile (\<lambda>x. x \<noteq> c) s)] else [s])"

text \<open>\<open>strings.Split(s, sep)\<close> for a one-byte separator.\<close>

fun strings_Split :: "string \<Rightarrow> char \<Rightarrow> string list" where
  "strings_Split [] c = [[]]"
| "strings_Split (x # xs) c =
     (if x = c then [] # strings_Split xs c
      else (case strings_Split xs c of
              [] \<Rightarrow> [[x]]
            | p # ps \<Rightarrow> (x # p) # ps))"

definition strings_TrimSpace :: "string \<Rightarrow> string" where
  "strings_TrimSpace s =
     rev (dropWhile unicode_IsSpace (rev (dropWhile unicode_IsSpace s)))"

section \<open>The Go struct generator: options\<close>

record Options =
  PkgName :: string
  DecimalMode :: string
  NsPrefixMode :: string
  InPath :: string
  OutPath :: string

datatype flag_warning = InvalidDecimal string | InvalidNsPrefix string

text \<open>
  \<open>parseFlags\<close> after \<open>flag.Parse()\<close>: the argument holds the flag values as parsed
  from the command line, the result the lines written to standard error and the
  options handed to \<open>run\<close>. The function has no failing branch.
\<close>

definition parseFlags :: "Options \<Rightarrow> flag_warning list \<times> Options" where
  "parseFlags raw =
     (let d = strings_ToLower (DecimalMode raw);
          (w1, d') = (if d = ''shopspring'' \<or> d = ''string'' then ([], d)
                      else ([InvalidDecimal d], ''shopspring''));
          n = strings_ToLower (NsPrefixMode raw);
          (w2, n') = (if n = ''auto'' \<or> n = ''always'' \<or> n = ''none'' then ([], n)
                      else ([InvalidNsPrefix n], ''auto''))
      in (w1 @ w2, raw\<lparr>DecimalMode := d', NsPrefixMode := n'\<rparr>))"

section \<open>The Go struct generator: naming of declared types\<close>

text \<open>
  The three declaration maps of a \<open>Schema\<close> are given by their keys: the naming pass of
  \<open>generate\<close> ranges over the keys only.
\<close>

record Schema =
  Namespace :: string
  EntityTypes :: "string list"
  ComplexTypes :: "string list"
  EnumTypes :: "string list"

definition splitQualified :: "string \<Rightarrow> string \<times> string" where
  "splitQualified qn =
     (let idx = strings_LastIndex qn (CHR ''.'')
      in if idx < 0 then ('''', qn) else (take (nat idx) qn, drop (nat idx + 1) qn))"

definition baseNameFromQualified :: "string \<Rightarrow> string" where
  "baseNameFromQualified qn = snd (splitQualified qn)"

definition sanitizeIdent :: "string \<Rightarrow> string" where
  "sanitizeIdent s = filter (\<lambda>r. unicode_IsLetter r \<or> unicode_IsDigit r) s"

definition goExported :: "string \<Rightarrow> string" where
  "goExported name =
     (case name of
        [] \<Rightarrow> ''X''
      | r0 # rest \<Rightarrow>
          (let r = unicode_ToUpper r0
           in (if unicode_IsLetter r \<or> r = CHR ''_'' then [r]
               else if unicode_IsDigit r then [CHR ''X'', r]
               else [CHR ''X''])
              @ filter (\<lambda>c. unicode_IsLetter c \<or> unicode_IsDigit c \<or> c = CHR ''_'') rest))"

definition namespaceAlias :: "string \<Rightarrow> string" where
  "namespaceAlias ns =
     (let i = strings_LastIndex ns (CHR ''.'');
          seg = (if 0 \<le> i then drop (nat i + 1) ns else ns);
          j = strings_LastIndex seg (CHR ''/'');
          seg = (if 0 \<le> j then drop (nat j + 1) seg else seg);
          seg = sanitizeIdent seg;
          seg = (if seg = '''' then ''NS'' else seg)
      in goExported seg)"

text \<open>The distinct non-empty namespaces; the source sorts them, which the naming pass
  does not observe.\<close>

definition distinctNamespaces :: "Schema list \<Rightarrow> string list" where
  "distinctNamespaces schemas = remdups (filter (\<lambda>ns. ns \<noteq> '''') (map Namespace schemas))"

text \<open>The generator's state. Its fields \<open>schemas\<close>, \<open>decimalImport\<close> and
  \<open>assocByQName\<close> are read by none of the functions below and are left out.\<close>

record genState =
  opts :: Options
  nsAliases :: "string \<rightharpoonup> string"
  useTime :: bool
  useDecimal :: bool
  knownTypes :: "string list"
  typeNameMap :: "string \<rightharpoonup> string"
  useJSON :: bool
  useFmt :: bool
  useStrings :: bool

text \<open>Reading a Go \<open>map[string]string\<close>: a missing key reads as the empty string.\<close>

definition lookupStr :: "(string \<rightharpoonup> string) \<Rightarrow> string \<Rightarrow> string" where
  "lookupStr m k = (case m k of None \<Rightarrow> '''' | Some v \<Rightarrow> v)"

definition declaredNames :: "Schema \<Rightarrow> string list" where
  "declaredNames s = EntityTypes s @ ComplexTypes s @ EnumTypes s"

definition registerKnownTypes :: "Schema list \<Rightarrow> string list" where
  "registerKnownTypes schemas =
     remdups (concat (map (\<lambda>s. map (\<lambda>name. Namespace s @ ''.'' @ name) (declaredNames s)) schemas))"

definition conflictNames :: "string list \<Rightarrow> string \<Rightarrow> nat" where
  "conflictNames known base = length (filter (\<lambda>qn. baseNameFromQualified qn = base) known)"

definition needPrefix :: "Options \<Rightarrow> string list \<Rightarrow> bool" where
  "needPrefix os nsList =
     (NsPrefixMode os = ''always'' \<or> (NsPrefixMode os = ''auto'' \<and> 1 < length nsList))"

text \<open>The Go type name computed for one registered qualified name (the body of the
  second loop over \<open>knownTypes\<close>).\<close>

definition goTypeName ::
  "bool \<Rightarrow> (string \<rightharpoonup> string) \<Rightarrow> string list \<Rightarrow> string \<Rightarrow> string" where
  "goTypeName needPfx aliases known qn =
     (let (ns, base) = splitQualified qn;
          goName = goExported base
      in if needPfx \<or> 1 < conflictNames known base
         then lookupStr aliases ns @ goName else goName)"

text \<open>The state of \<open>generate\<close> once the Go type names are computed (the first part of
  the function, up to the start of the output).\<close>

definition generate_state :: "Schema list \<Rightarrow> Options \<Rightarrow> genState" where
  "generate_state schemas os =
     (let nsList = distinctNamespaces schemas;
          aliases = (\<lambda>ns. if ns \<in> set nsList then Some (namespaceAlias ns) else None);
          known = registerKnownTypes schemas;
          names = (\<lambda>qn. if qn \<in> set known
                         then Some (goTypeName (needPrefix os nsList) aliases known qn)
                         else None)
      in \<lparr>opts = os, nsAliases = aliases, useTime = False, useDecimal = False,
          knownTypes = known, typeNameMap = names,
          useJSON = False, useFmt = False, useStrings = False\<rparr>)"

text \<open>The namespaces in which a local name is declared, in the words of the
  specification; compared with \<open>conflictNames\<close> below.\<close>

definition namespacesDeclaring :: "Schema list \<Rightarrow> string \<Rightarrow> string list" where
  "namespacesDeclaring schemas name =
     remdups (map Namespace (filter (\<lambda>s. name \<in> set (declaredNames s)) schemas))"

section \<open>The Go struct generator: resolving type references\<close>

definition stripPointer :: "string \<Rightarrow> string" where
  "stripPointer t = (if strings_HasPrefix t ''*'' then strings_TrimPrefix t ''*'' else t)"

definition isStructNamedType :: "string \<Rightarrow> bool" where
  "isStructNamedType t =
     (if strings_HasPrefix t ''[]'' \<or> strings_HasPrefix t ''map['' then False
      else if t \<in> set [''string'', ''bool'', ''byte'', ''rune'',
                        ''int'', ''int8'', ''int16'', ''int32'',
                        ''int64'', ''uint'', ''uint8'', ''uint16'',
                        ''uint32'', ''uint64'', ''float32'', ''float64'',
                        ''time.Time'', ''json.RawMessage''] then False
      else if t = ''decimal.Decimal'' then True
      else True)"

definition boolOrDefault :: "bool option \<Rightarrow> bool \<Rightarrow> bool" where
  "boolOrDefault p d = (case p of None \<Rightarrow> d | Some b \<Rightarrow> b)"

text \<open>The branch \<open>if nullable { return "*T", \<dots> }; return "T", \<dots>\<close> shared by most
  cases of \<open>mapEdmToGo\<close>.\<close>

definition ptrIf :: "bool \<Rightarrow> string \<Rightarrow> string" where
  "ptrIf nullable t = (if nullable then ''*'' @ t else t)"

text \<open>\<open>mapEdmToGo\<close> returns the Go type, \<open>needsTime\<close> and \<open>needsDecimal\<close>.\<close>

definition mapEdmToGo :: "genState \<Rightarrow> string \<Rightarrow> bool \<Rightarrow> string \<times> bool \<times> bool" where
  "mapEdmToGo st edm nullable =
     (if edm = ''Edm.String'' then (ptrIf nullable ''string'', False, False)
      else if edm = ''Edm.Boolean'' then (ptrIf nullable ''bool'', False, False)
      else if edm = ''Edm.Byte'' then (ptrIf nullable ''uint8'', False, False)
      else if edm = ''Edm.SByte'' then (ptrIf nullable ''int8'', False, False)
      else if edm = ''Edm.Int16'' then (ptrIf nullable ''int16'', False, False)
      else if edm = ''Edm.Int32'' then (ptrIf nullable ''int32'', False, False)
      else if edm = ''Edm.Int64'' then (ptrIf nullable ''int64'', False, False)
      else if edm = ''Edm.Single'' then (ptrIf nullable ''float32'', False, False)
      else if edm = ''Edm.Double'' then (ptrIf nullable ''float64'', False, False)
      else if edm = ''Edm.Decimal'' then
        (if DecimalMode (opts st) = ''string'' then (ptrIf nullable ''string'', False, False)
         else (ptrIf nullable ''decimal.Decimal'', False, True))
      else if edm = ''Edm.Date'' \<or> edm = ''Edm.DateTime'' \<or> edm = ''Edm.DateTimeOffset''
        then (''time.Time'', True, False)
      else if edm = ''Edm.TimeOfDay'' \<or> edm = ''Edm.Time''
        then (ptrIf nullable ''string'', False, False)
      else if edm = ''Edm.Duration'' then (ptrIf nullable ''string'', False, False)
      else if edm = ''Edm.Binary'' then (''[]byte'', False, False)
      else if edm = ''Edm.Guid'' then (ptrIf nullable ''string'', False, False)
      else (ptrIf nullable ''string'', False, False))"

text \<open>
  The regular expression \<open>^Collection\((.+)\)$\<close>: the text is \<open>Collection(\<close>, one or
  more characters other than a line feed, and a closing parenthesis; the submatch is
  what stands between the two.
\<close>

definition reCollection :: "string \<Rightarrow> string option" where
  "reCollection raw =
     (if strings_HasPrefix raw ''Collection('' \<and> strings_HasSuffix raw '')''
      then (let inner = take (length raw - 12) (drop 11 raw)
            in if inner \<noteq> [] \<and> CHR 0x0A \<notin> set inner then Some inner else None)
      else None)"

definition strings_ContainsChar :: "string \<Rightarrow> char \<Rightarrow> bool" where
  "strings_ContainsChar s c = (c \<in> set s)"

function resolveTypeRef ::
  "genState \<Rightarrow> string \<Rightarrow> bool option \<Rightarrow> string \<Rightarrow> string \<times> genState" where
  "resolveTypeRef st raw nullable ctxNS =
     (case reCollection raw of
        Some m1 \<Rightarrow>
          (let (inner, st') = resolveTypeRef st m1 None ctxNS
           in (''[]'' @ stripPointer inner, st'))
      | None \<Rightarrow>
          if strings_HasPrefix raw ''Edm.'' then
            (let (t, needsTime, needsDec) = mapEdmToGo st raw (boolOrDefault nullable True);
                 st1 = (if needsTime then st\<lparr>useTime := True\<rparr> else st);
                 st2 = (if needsDec then st1\<lparr>useDecimal := True\<rparr> else st1)
             in (t, st2))
          else
            (let qn = (if \<not> strings_ContainsChar raw (CHR ''.'') then ctxNS @ ''.'' @ raw
                       else raw);
                 goName = lookupStr (typeNameMap st) qn
             in if goName = '''' then (''interface{}'', st)
                else if boolOrDefault nullable True \<and> isStructNamedType goName
                  then (''*'' @ goName, st)
                else (goName, st)))"
  by pat_completeness auto
termination
  by (relation "measure (\<lambda>(st, raw, nullable, ctxNS). length raw)")
     (auto simp: reCollection_def Let_def strings_HasPrefix_def strings_HasSuffix_def
        split: if_splits)

declare resolveTypeRef.simps [simp del]

text \<open>The case labels of the \<open>switch\<close> in \<open>mapEdmToGo\<close>: the primitive names the Go
  struct generator recognizes.\<close>

definition mapEdmToGo_cases :: "string list" where
  "mapEdmToGo_cases =
     [''Edm.String'', ''Edm.Boolean'', ''Edm.Byte'', ''Edm.SByte'', ''Edm.Int16'',
      ''Edm.Int32'', ''Edm.Int64'', ''Edm.Single'', ''Edm.Double'', ''Edm.Decimal'',
      ''Edm.Date'', ''Edm.DateTime'', ''Edm.DateTimeOffset'', ''Edm.TimeOfDay'',
      ''Edm.Time'', ''Edm.Duration'', ''Edm.Binary'', ''Edm.Guid'']"

section \<open>The Go struct generator: enumerations\<close>

record EnumMember =
  memberName :: string
  memberValue :: string

record EnumType =
  enumNamespace :: string
  enumName :: string
  enumUnderlying :: string
  enumMembers :: "EnumMember list"
  enumIsFlags :: bool

definition castEnumValue :: "string \<Rightarrow> string \<Rightarrow> string" where
  "castEnumValue goUnder v =
     (if strings_HasPrefix goUnder ''int'' \<or> strings_HasPrefix goUnder ''uint''
         \<or> strings_HasPrefix goUnder ''byte'' then v
      else v)"

text \<open>
  One line of the emitted \<open>const ( \<dots> )\<close> block: the constant's name and the expression
  written after it, if any. \<open>ConstIota\<close> stands for \<open>goName = iota\<close>, \<open>ConstLit v\<close> for
  \<open>goName = v\<close>.
\<close>

datatype const_expr = ConstIota | ConstLit string

type_synonym const_spec = "string \<times> const_expr option"

fun emitEnum_constSpecs ::
  "string \<Rightarrow> string \<Rightarrow> nat \<Rightarrow> EnumMember list \<Rightarrow> const_spec list" where
  "emitEnum_constSpecs goName goUnder idx [] = []"
| "emitEnum_constSpecs goName goUnder idx (m # ms) =
     (let constName = goName @ goExported (memberName m)
      in (if memberValue m \<noteq> '''' then (constName, Some (ConstLit (castEnumValue goUnder (memberValue m))))
          else if idx = 0 then (constName, Some ConstIota)
          else (constName, None))
         # emitEnum_constSpecs goName goUnder (idx + 1) ms)"

definition renderConstSpec :: "string \<Rightarrow> const_spec \<Rightarrow> string" where
  "renderConstSpec goName spec =
     (case spec of
        (constName, Some (ConstLit v)) \<Rightarrow>
          ''  '' @ constName @ '' '' @ goName @ '' = '' @ v @ [CHR 0x0A]
      | (constName, Some ConstIota) \<Rightarrow>
          ''  '' @ constName @ '' '' @ goName @ '' = iota'' @ [CHR 0x0A]
      | (constName, None) \<Rightarrow> ''  '' @ constName @ [CHR 0x0A])"

text \<open>The names under which \<open>emitEnum\<close> emits an enumeration, and its constant block
  (the text between \<open>const (\<close> and \<open>)\<close>).\<close>

definition emitEnum_goName :: "genState \<Rightarrow> EnumType \<Rightarrow> string" where
  "emitEnum_goName st e = lookupStr (typeNameMap st) (enumNamespace e @ ''.'' @ enumName e)"

definition emitEnum_goUnder :: "genState \<Rightarrow> EnumType \<Rightarrow> string" where
  "emitEnum_goUnder st e =
     (let underlying = (if enumUnderlying e = '''' then ''Edm.Int32'' else enumUnderlying e);
          goUnder = fst (mapEdmToGo st underlying False)
      in if goUnder = '''' then ''int32'' else goUnder)"

definition emitEnum_consts :: "genState \<Rightarrow> EnumType \<Rightarrow> const_spec list" where
  "emitEnum_consts st e =
     emitEnum_constSpecs (emitEnum_goName st e) (emitEnum_goUnder st e) 0 (enumMembers e)"

definition emitEnum_constBlock :: "genState \<Rightarrow> EnumType \<Rightarrow> string" where
  "emitEnum_constBlock st e =
     concat (map (renderConstSpec (emitEnum_goName st e)) (emitEnum_consts st e))"

subsection \<open>The decoder written into the generated file\<close>

text \<open>
  \<open>emitEnum\<close> writes an \<open>UnmarshalJSON\<close> method for each enumeration. Its branch for a
  JSON string \<open>s\<close> is transcribed here from the emitted statements; \<open>nameToValue\<close> is the
  emitted table from member names to constants, and the enumeration's values are read as
  integers (bitwise or on two's complement).
\<close>

datatype decode_error = InvalidEnumValue string

fun unmarshalFlagsParts ::
  "(string \<rightharpoonup> int) \<Rightarrow> int \<Rightarrow> string list \<Rightarrow> decode_error + int" where
  "unmarshalFlagsParts nameToValue v [] = Inr v"
| "unmarshalFlagsParts nameToValue v (p # ps) =
     (let p' = strings_TrimSpace p
      in if p' = '''' then unmarshalFlagsParts nameToValue v ps
         else (case nameToValue p' of
                 None \<Rightarrow> Inl (InvalidEnumValue p')
               | Some mv \<Rightarrow> unmarshalFlagsParts nameToValue (v OR mv) ps))"

definition unmarshalEnumString ::
  "bool \<Rightarrow> (string \<rightharpoonup> int) \<Rightarrow> string \<Rightarrow> decode_error + int" where
  "unmarshalEnumString isFlags nameToValue s =
     (if isFlags then
        (if s = '''' then Inr 0
         else unmarshalFlagsParts nameToValue 0 (strings_Split s (CHR '','')))
      else (case nameToValue s of
              Some v \<Rightarrow> Inr v
            | None \<Rightarrow> Inl (InvalidEnumValue s)))"

text \<open>The names listed in a text, in the words of the specification: its comma-separated
  items with the surrounding white space removed, the empty ones left out.\<close>

definition listedNames :: "string \<Rightarrow> string list" where
  "listedNames s =
     filter (\<lambda>p. p \<noteq> '''') (map strings_TrimSpace (strings_Split s (CHR '','')))"

subsection \<open>Reading the emitted constant block\<close>

text \<open>
  The Go language gives the constants of a parenthesised \<open>const\<close> block their values as
  follows: a line without an expression repeats the nearest expression above it, and
  \<open>iota\<close> is the index of the line in the block. \<open>goConstValues\<close> reads a block by this
  rule; an expression that is a decimal literal, with or without a minus sign, is read
  by \<open>decimalLit\<close>, and a line that has no value under the rule reads as \<open>None\<close>.
\<close>

definition digitVal :: "char \<Rightarrow> int" where
  "digitVal c = (of_char c :: int) - 48"

definition digitsVal :: "string \<Rightarrow> int" where
  "digitsVal ds = foldl (\<lambda>n c. n * 10 + digitVal c) 0 ds"

text \<open>A decimal literal of Go: \<open>0\<close>, or digits that do not start with \<open>0\<close>.\<close>

definition decimalDigits :: "string \<Rightarrow> int option" where
  "decimalDigits ds =
     (if ds \<noteq> [] \<and> list_all unicode_IsDigit ds \<and> (ds = ''0'' \<or> hd ds \<noteq> CHR ''0'')
      then Some (digitsVal ds) else None)"

definition decimalLit :: "string \<Rightarrow> int option" where
  "decimalLit s =
     (case s of
        [] \<Rightarrow> None
      | c # r \<Rightarrow>
          if c = CHR ''-'' then map_option uminus (decimalDigits r) else decimalDigits s)"

fun goConstValues ::
  "nat \<Rightarrow> const_expr option \<Rightarrow> const_spec list \<Rightarrow> (string \<times> int option) list" where
  "goConstValues idx prev [] = []"
| "goConstValues idx prev ((constName, e) # specs) =
     (let cur = (case e of Some x \<Rightarrow> Some x | None \<Rightarrow> prev);
          v = (case cur of
                 None \<Rightarrow> None
               | Some ConstIota \<Rightarrow> Some (int idx)
               | Some (ConstLit s) \<Rightarrow> decimalLit s)
      in (constName, v) # goConstValues (idx + 1) cur specs)"

section \<open>Helpers shared by the other generators\<close>

text \<open>
  The generators under \<open>grok4fastWorking\<close> (plain Go structs), the Zod generator and the
  ArkType generator declare the same parsing types and the same two helpers. Of a
  \<open>Property\<close> and a \<open>NavigationProperty\<close> the functions below read the name and the type
  only, apart from \<open>Nullable\<close>.
\<close>

definition extractEdmTypeName :: "string \<Rightarrow> string" where
  "extractEdmTypeName edmType =
     (let fullType = strings_TrimPrefix edmType ''Collection('';
          fullType = strings_TrimSuffix fullType '')'';
          split = strings_SplitN2 fullType (CHR ''.'')
      in if length split = 2 then split ! 1 else fullType)"

definition isCollection :: "string \<Rightarrow> bool \<times> string" where
  "isCollection t =
     (if strings_HasPrefix t ''Collection('' \<and> strings_HasSuffix t '')''
      then (True, take (length t - 12) (drop 11 t))
      else (False, t))"

record Property =
  propName :: string
  propType :: string
  propNullable :: bool

record NavigationProperty =
  navName :: string
  navType :: string

text \<open>An \<open>EntityType\<close> or a \<open>ComplexType\<close>, as the functions taking \<open>typ interface{}\<close>
  receive it: both cases read the name, the properties and the navigation properties.\<close>

record TypeDecl =
  declName :: string
  declProperties :: "Property list"
  declNavigationProperties :: "NavigationProperty list"

datatype struct_decl = EntityTypeOf TypeDecl | ComplexTypeOf TypeDecl

fun typDecl :: "struct_decl \<Rightarrow> TypeDecl" where
  "typDecl (EntityTypeOf t) = t"
| "typDecl (ComplexTypeOf t) = t"

text \<open>
  \<open>strconv.Atoi\<close> on a platform with 64-bit \<open>int\<close>: an optional sign, then one or more
  decimal digits, the value within the range of \<open>int\<close>; anything else is an error.
\<close>

definition Atoi :: "string \<Rightarrow> int option" where
  "Atoi s =
     (let (neg, ds) = (case s of
                         [] \<Rightarrow> (False, [])
                       | c # r \<Rightarrow> if c = CHR ''-'' then (True, r)
                                  else if c = CHR ''+'' then (False, r)
                                  else (False, s))
      in if ds = [] \<or> \<not> list_all unicode_IsDigit ds then None
         else (let n = digitsVal ds;
                   v = (if neg then - n else n)
               in if - (2 ^ 63) \<le> v \<and> v \<le> 2 ^ 63 - 1 then Some v else None))"

text \<open>Arithmetic on a Go \<open>int\<close> of 64 bits wraps around.\<close>

definition wrap64 :: "int \<Rightarrow> int" where
  "wrap64 x = (x + 2 ^ 63) mod 2 ^ 64 - 2 ^ 63"

section \<open>The plain Go struct generator (grok4fastWorking)\<close>

definition edmToGo :: "string \<rightharpoonup> string" where
  "edmToGo = map_of
     [(''String'', ''string''),
      (''Int16'', ''int16''),
      (''Int32'', ''int32''),
      (''Int64'', ''int64''),
      (''Byte'', ''uint8''),
      (''SByte'', ''int8''),
      (''Boolean'', ''bool''),
      (''Decimal'', ''float64''),
      (''Double'', ''float64''),
      (''Single'', ''float32''),
      (''Guid'', ''string''),
      (''Date'', ''time.Time''),
      (''DateTimeOffset'', ''time.Time''),
      (''TimeOfDay'', ''time.Time''),
      (''Binary'', ''[]byte''),
      (''Stream'', ''[]byte''),
      (''Duration'', ''string'')]"

definition getGoType :: "string \<Rightarrow> bool \<Rightarrow> string" where
  "getGoType edmType isNullable =
     (let (isColl, innerEdm) = isCollection edmType;
          innerName = extractEdmTypeName innerEdm;
          baseGoType = (case edmToGo innerName of
                          Some primitive \<Rightarrow> primitive
                        | None \<Rightarrow> if \<not> isColl \<and> isNullable then ''*'' @ innerName
                                  else innerName)
      in if isColl then ''[]'' @ baseGoType
         else if isNullable then
           (if baseGoType = ''string'' \<or> baseGoType = ''[]byte'' \<or> baseGoType = ''time.Time''
              then baseGoType
            else if \<not> strings_HasPrefix baseGoType ''*'' then ''*'' @ baseGoType
            else baseGoType)
         else baseGoType)"

text \<open>
  \<open>generateEnum\<close>: the loop over the members, from a given \<open>currentValue\<close>. It returns
  the rows, the warnings and the value of \<open>currentValue\<close> after the last member. A row is
  the member's name and the integer printed after \<open>=\<close> on its line; a warning is a line
  written to the log, with the enumeration, the member, the rejected text and the value
  used instead.
\<close>

datatype enum_warning = InvalidEnumValueWarning string string string int

fun generateEnum_loop ::
  "string \<Rightarrow> int \<Rightarrow> EnumMember list \<Rightarrow> (string \<times> int) list \<times> enum_warning list \<times> int" where
  "generateEnum_loop en currentValue [] = ([], [], currentValue)"
| "generateEnum_loop en currentValue (m # ms) =
     (if memberValue m \<noteq> '''' then
        (case Atoi (memberValue m) of
           None \<Rightarrow>
             (let (rows, ws, c) = generateEnum_loop en currentValue ms
              in ((memberName m, currentValue) # rows,
                  InvalidEnumValueWarning en (memberName m) (memberValue m) currentValue # ws,
                  c))
         | Some val \<Rightarrow>
             (let (rows, ws, c) = generateEnum_loop en (wrap64 (val + 1)) ms
              in ((memberName m, val) # rows, ws, c)))
      else
        (let (rows, ws, c) = generateEnum_loop en (wrap64 (currentValue + 1)) ms
         in ((memberName m, currentValue) # rows, ws, c)))"

definition generateEnum ::
  "string \<Rightarrow> EnumMember list \<Rightarrow> (string \<times> int) list \<times> enum_warning list" where
  "generateEnum en members =
     (let (rows, ws, c) = generateEnum_loop en 0 members in (rows, ws))"

section \<open>The Zod generator\<close>

definition edmToZod :: "string \<rightharpoonup> string" where
  "edmToZod = map_of
     [(''String'', ''z.string()''),
      (''Int16'', ''z.number().int()''),
      (''Int32'', ''z.number().int()''),
      (''Int64'', ''z.number().int()''),
      (''Byte'', ''z.number().int().nonnegative().max(255)''),
      (''SByte'', ''z.number().int().min(-128).max(127)''),
      (''Boolean'', ''z.boolean()''),
      (''Decimal'', ''z.number()''),
      (''Double'', ''z.number()''),
      (''Single'', ''z.number()''),
      (''Guid'', ''z.string().uuid()''),
      (''Date'', ''z.coerce.date()''),
      (''DateTimeOffset'', ''z.coerce.date()''),
      (''TimeOfDay'', ''z.string()''),
      (''Binary'', ''z.instanceof(Uint8Array)''),
      (''Stream'', ''z.instanceof(Uint8Array)''),
      (''Duration'', ''z.string()'')]"

datatype zod_warning = UnknownZodType string

text \<open>\<open>getZodType\<close> returns the Zod expression and the lines it writes to the log.\<close>

definition getZodType :: "string \<Rightarrow> bool \<Rightarrow> string \<Rightarrow> string \<times> zod_warning list" where
  "getZodType edmType isNullable targetSchemaName =
     (let (isColl, innerEdm) = isCollection edmType;
          innerName = extractEdmTypeName innerEdm;
          (baseZod, ws) =
            (case edmToZod innerName of
               Some zod \<Rightarrow> (zod, [])
             | None \<Rightarrow>
                 if innerName \<noteq> '''' then
                   (let target = (if targetSchemaName = '''' then innerName @ ''Schema''
                                  else targetSchemaName)
                    in (''z.lazy(() => '' @ target @ '')'', []))
                 else (''z.unknown()'', [UnknownZodType edmType]))
      in if isColl then (''z.array('' @ baseZod @ '')'' @ ''.nullish()'', ws)
         else (baseZod @ ''.nullish()'', ws))"

definition toSapJsonEnumValue :: "string \<Rightarrow> string" where
  "toSapJsonEnumValue name =
     (case name of [] \<Rightarrow> [] | c # cs \<Rightarrow> unicode_ToLower c # cs)"

text \<open>
  \<open>generateZodEnum\<close>: the loop over the members, from a given \<open>currentValue\<close>. It
  returns the rows and the value of \<open>currentValue\<close> after the last member. A row is the
  member's name, its JSON text, the integer printed as its numeric value and, when the
  explicit value did not parse, the rejected text printed in the \<open>parsed error\<close> remark
  beside it.
\<close>

record zod_row =
  zodMember :: string
  zodJsonValue :: string
  zodNumeric :: int
  zodParsedError :: "string option"

fun generateZodEnum_loop :: "int \<Rightarrow> EnumMember list \<Rightarrow> zod_row list \<times> int" where
  "generateZodEnum_loop currentValue [] = ([], currentValue)"
| "generateZodEnum_loop currentValue (m # ms) =
     (let jsonValue = toSapJsonEnumValue (memberName m)
      in if memberValue m \<noteq> '''' then
           (case Atoi (memberValue m) of
              None \<Rightarrow>
                (let (rows, c) = generateZodEnum_loop currentValue ms
                 in (\<lparr>zodMember = memberName m, zodJsonValue = jsonValue,
                       zodNumeric = currentValue, zodParsedError = Some (memberValue m)\<rparr>
                     # rows, c))
            | Some val \<Rightarrow>
                (let (rows, c) = generateZodEnum_loop (wrap64 (val + 1)) ms
                 in (\<lparr>zodMember = memberName m, zodJsonValue = jsonValue,
                       zodNumeric = val, zodParsedError = None\<rparr>
                     # rows, c)))
         else
           (let (rows, c) = generateZodEnum_loop (wrap64 (currentValue + 1)) ms
            in (\<lparr>zodMember = memberName m, zodJsonValue = jsonValue,
                  zodNumeric = currentValue, zodParsedError = None\<rparr>
                # rows, c)))"

definition generateZodEnum :: "EnumMember list \<Rightarrow> zod_row list" where
  "generateZodEnum members = fst (generateZodEnum_loop 0 members)"

text \<open>\<open>collectTypeAndEnumDeps\<close>: the closure \<open>addType\<close> updates the two result sets.\<close>

definition addType ::
  "string \<Rightarrow> string set \<Rightarrow> string set \<Rightarrow> string set \<Rightarrow> string
     \<Rightarrow> string set \<times> string set \<Rightarrow> string set \<times> string set" where
  "addType selfName entitySet complexSet enumSet name deps =
     (let (typeDeps, enumDeps) = deps
      in if name = '''' \<or> name = selfName then (typeDeps, enumDeps)
         else if edmToZod name \<noteq> None then (typeDeps, enumDeps)
         else if name \<in> enumSet then (typeDeps, insert name enumDeps)
         else if name \<in> entitySet then (insert name typeDeps, enumDeps)
         else if name \<in> complexSet then (insert name typeDeps, enumDeps)
         else (insert name typeDeps, enumDeps))"

definition collectTypeAndEnumDeps ::
  "struct_decl \<Rightarrow> string set \<Rightarrow> string set \<Rightarrow> string set \<Rightarrow> string set \<times> string set" where
  "collectTypeAndEnumDeps t entitySet complexSet enumSet =
     (let selfName = declName (typDecl t);
          props = declProperties (typDecl t);
          navs = declNavigationProperties (typDecl t);
          deps = fold (\<lambda>p. addType selfName entitySet complexSet enumSet
                               (extractEdmTypeName (snd (isCollection (propType p)))))
                   props ({}, {});
          deps = fold (\<lambda>n. addType selfName entitySet complexSet enumSet
                               (extractEdmTypeName (snd (isCollection (navType n)))))
                   navs deps
      in deps)"

section \<open>The ArkType generator\<close>

definition edmToArkBase :: "string \<rightharpoonup> string" where
  "edmToArkBase = map_of
     [(''String'', ''string''),
      (''Int16'', ''number''),
      (''Int32'', ''number''),
      (''Int64'', ''number''),
      (''Byte'', ''number''),
      (''SByte'', ''number''),
      (''Boolean'', ''boolean''),
      (''Decimal'', ''number''),
      (''Double'', ''number''),
      (''Single'', ''number''),
      (''Guid'', ''string''),
      (''Date'', ''string''),
      (''DateTimeOffset'', ''string''),
      (''TimeOfDay'', ''string''),
      (''Binary'', ''string''),
      (''Stream'', ''string''),
      (''Duration'', ''string'')]"

fun strings_Join :: "string list \<Rightarrow> string \<Rightarrow> string" where
  "strings_Join [] sep = []"
| "strings_Join [p] sep = p"
| "strings_Join (p # q # ps) sep = p @ sep @ strings_Join (q # ps) sep"

text \<open>\<open>enumVals\<close> is \<open>None\<close> where the source passes \<open>isEnum = false\<close>.\<close>

definition arkPropTypeDSL :: "string \<Rightarrow> string list option \<Rightarrow> string" where
  "arkPropTypeDSL edmType enumVals =
     (let (isColl, inner) = isCollection edmType;
          innerName = extractEdmTypeName inner
      in (case (case enumVals of Some vs \<Rightarrow> if vs \<noteq> [] then Some vs else None | None \<Rightarrow> None) of
            Some vs \<Rightarrow>
              (let union = strings_Join (map (\<lambda>v. [CHR 0x27] @ v @ [CHR 0x27]) vs) ''|''
               in if isColl then union @ ''[]|null'' else union @ ''|null'')
          | None \<Rightarrow>
              (case edmToArkBase innerName of
                 Some base \<Rightarrow> if isColl then base @ ''[]|null'' else base @ ''|null''
               | None \<Rightarrow> if isColl then ''object[]|null'' else ''object|null'')))"

text \<open>\<open>strings.Title\<close> on ASCII text: a letter is put in upper case when the character
  before it is a separator, that is neither a letter, a digit nor an underscore.\<close>

definition isSeparator :: "char \<Rightarrow> bool" where
  "isSeparator r = (\<not> (unicode_IsDigit r \<or> unicode_IsLetter r \<or> r = CHR ''_''))"

fun titleFrom :: "char \<Rightarrow> string \<Rightarrow> string" where
  "titleFrom prev [] = []"
| "titleFrom prev (r # rs) = (if isSeparator prev then unicode_ToUpper r else r) # titleFrom r rs"

definition strings_Title :: "string \<Rightarrow> string" where
  "strings_Title s = titleFrom (CHR '' '') s"

text \<open>The key under which \<open>generateArkObject\<close> emits the scalar property named
  \<open>keyName\<close>; \<open>propNames\<close> is the set of the declaration's scalar property names.\<close>

definition arkKeyName :: "string set \<Rightarrow> string \<Rightarrow> string" where
  "arkKeyName propNames keyName =
     (if strings_HasSuffix keyName ''Property'' then
        (let alias = strings_TrimSuffix keyName ''Property''
         in if alias \<noteq> '''' then (if alias \<notin> propNames then alias else keyName)
            else keyName)
      else keyName)"

text \<open>The entries of the emitted object, each a key and the ArkType expression of its
  value: first the scalar properties, then the navigation properties.\<close>

definition arkScalarEntries ::
  "Property list \<Rightarrow> (string \<rightharpoonup> string list) \<Rightarrow> (string \<times> string) list" where
  "arkScalarEntries props enumsByName =
     (let propNames = propName ` set props
      in map (\<lambda>p. (arkKeyName propNames (propName p),
                    arkPropTypeDSL (propType p) (enumsByName (extractEdmTypeName (propType p)))))
           props)"

definition arkNavEntries :: "NavigationProperty list \<Rightarrow> (string \<times> string) list" where
  "arkNavEntries navs = map (\<lambda>n. (navName n, arkPropTypeDSL (navType n) None)) navs"

definition arkEntryLine :: "string \<times> string \<Rightarrow> string" where
  "arkEntryLine kv =
     ''  '' @ [CHR 0x22] @ fst kv @ ''?'' @ [CHR 0x22] @ '': '' @ [CHR 0x22] @ snd kv
       @ [CHR 0x22] @ '','' @ [CHR 0x0A]"

definition generateArkObject :: "struct_decl \<Rightarrow> (string \<rightharpoonup> string list) \<Rightarrow> string" where
  "generateArkObject t enumsByName =
     (let name = declName (typDecl t);
          props = declProperties (typDecl t);
          navs = declNavigationProperties (typDecl t);
          typeName = strings_Title name
      in ''export const '' @ typeName @ ''Type = type({'' @ [CHR 0x0A]
         @ concat (map arkEntryLine (arkScalarEntries props enumsByName))
         @ concat (map arkEntryLine (arkNavEntries navs))
         @ ''});'' @ [CHR 0x0A, CHR 0x0A])"

section \<open>Properties: configuration\<close>

text \<open>
  Claim C2, as the code has it. \<open>parseFlags\<close> never fails: after lower-casing, an
  unrecognized value of \<open>-ns-prefix\<close> is replaced by \<open>auto\<close> and an unrecognized value of
  \<open>-decimal\<close> by \<open>shopspring\<close>, each with a warning on standard error, so the options
  handed to the run always carry recognized values.
\<close>

theorem parseFlags_falls_back:
  "NsPrefixMode (snd (parseFlags raw)) \<in> {''auto'', ''always'', ''none''}
   \<and> DecimalMode (snd (parseFlags raw)) \<in> {''shopspring'', ''string''}
   \<and> (strings_ToLower (NsPrefixMode raw) \<notin> {''auto'', ''always'', ''none''} \<longrightarrow>
        NsPrefixMode (snd (parseFlags raw)) = ''auto''
        \<and> InvalidNsPrefix (strings_ToLower (NsPrefixMode raw)) \<in> set (fst (parseFlags raw)))
   \<and> (strings_ToLower (DecimalMode raw) \<notin> {''shopspring'', ''string''} \<longrightarrow>
        DecimalMode (snd (parseFlags raw)) = ''shopspring''
        \<and> InvalidDecimal (strings_ToLower (DecimalMode raw)) \<in> set (fst (parseFlags raw)))"
  by (simp add: parseFlags_def Let_def split: prod.splits)

text \<open>
  Claim C2, witness: the flags \<open>-ns-prefix=Sometimes -decimal=big\<close> satisfy both
  hypotheses; the run receives \<open>auto\<close> and \<open>shopspring\<close> and two warnings are written.
\<close>

theorem parseFlags_falls_back_witness:
  "strings_ToLower ''Sometimes'' \<notin> {''auto'', ''always'', ''none''}
   \<and> strings_ToLower ''big'' \<notin> {''shopspring'', ''string''}
   \<and> NsPrefixMode (snd (parseFlags
         \<lparr>PkgName = ''models'', DecimalMode = ''big'', NsPrefixMode = ''Sometimes'',
          InPath = '''', OutPath = ''''\<rparr>)) = ''auto''
   \<and> DecimalMode (snd (parseFlags
         \<lparr>PkgName = ''models'', DecimalMode = ''big'', NsPrefixMode = ''Sometimes'',
          InPath = '''', OutPath = ''''\<rparr>)) = ''shopspring''
   \<and> InvalidNsPrefix ''sometimes'' \<in> set (fst (parseFlags
         \<lparr>PkgName = ''models'', DecimalMode = ''big'', NsPrefixMode = ''Sometimes'',
          InPath = '''', OutPath = ''''\<rparr>))"
proof -
  have l1: "strings_ToLower ''Sometimes'' = ''sometimes''"
    by (simp add: strings_ToLower_def unicode_ToLower_def ascii_upper_def ascii_lower_def)
  have l2: "strings_ToLower ''big'' = ''big''"
    by (simp add: strings_ToLower_def unicode_ToLower_def ascii_upper_def ascii_lower_def)
  show ?thesis
    using parseFlags_falls_back
      [of "\<lparr>PkgName = ''models'', DecimalMode = ''big'', NsPrefixMode = ''Sometimes'',
           InPath = '''', OutPath = ''''\<rparr>"]
    by (simp add: l1 l2)
qed

text \<open>
  Claim C2, counterexample: loading the flags \<open>-ns-prefix=sometimes\<close> is not rejected.
  It returns options, in which the invalid value has been replaced by the default
  \<open>auto\<close>, and writes one warning.
\<close>

theorem parseFlags_invalid_not_rejected:
  "parseFlags \<lparr>PkgName = ''models'', DecimalMode = ''shopspring'',
               NsPrefixMode = ''sometimes'', InPath = '''', OutPath = ''''\<rparr>
     = ([InvalidNsPrefix ''sometimes''],
        \<lparr>PkgName = ''models'', DecimalMode = ''shopspring'',
         NsPrefixMode = ''auto'', InPath = '''', OutPath = ''''\<rparr>)"
  by (simp add: parseFlags_def strings_ToLower_def unicode_ToLower_def ascii_upper_def
      ascii_lower_def)

section \<open>Properties: namespace qualification\<close>

lemma LastIndex_absent: "c \<notin> set s \<Longrightarrow> strings_LastIndex s c = - 1"
  by (induction s) (auto simp: Let_def)

lemma LastIndex_append_sep:
  "c \<notin> set name \<Longrightarrow> strings_LastIndex (ns @ c # name) c = int (length ns)"
  by (induction ns) (auto simp: Let_def LastIndex_absent)

lemma splitQualified_join:
  assumes "CHR ''.'' \<notin> set name"
  shows "splitQualified (ns @ CHR ''.'' # name) = (ns, name)"
  using LastIndex_append_sep [OF assms, of ns]
  by (simp add: splitQualified_def Let_def)

lemma splitQualified_join_Nil:
  assumes "CHR ''.'' \<notin> set name"
  shows "splitQualified (CHR ''.'' # name) = ([], name)"
  using splitQualified_join [OF assms, of "[]"] by simp

lemma set_registerKnownTypes:
  "set (registerKnownTypes schemas) =
     {Namespace s @ ''.'' @ nm | s nm. s \<in> set schemas \<and> nm \<in> set (declaredNames s)}"
  by (auto simp: registerKnownTypes_def)

lemma set_namespacesDeclaring:
  "set (namespacesDeclaring schemas name) =
     {Namespace s | s. s \<in> set schemas \<and> name \<in> set (declaredNames s)}"
  by (auto simp: namespacesDeclaring_def)

text \<open>When no declared name contains a dot, the counter \<open>conflictNames[base]\<close> of the
  source is the number of distinct namespaces that declare \<open>base\<close>.\<close>

lemma conflictNames_eq:
  assumes wf: "\<forall>s\<in>set schemas. \<forall>nm\<in>set (declaredNames s). CHR ''.'' \<notin> set nm"
  shows "conflictNames (registerKnownTypes schemas) name =
           length (namespacesDeclaring schemas name)"
proof -
  let ?K = "registerKnownTypes schemas"
  let ?F = "filter (\<lambda>qn. baseNameFromQualified qn = name) ?K"
  let ?N = "namespacesDeclaring schemas name"
  have base: "baseNameFromQualified (Namespace s @ ''.'' @ nm) = nm"
    if "s \<in> set schemas" "nm \<in> set (declaredNames s)" for s nm
    using wf that by (simp add: baseNameFromQualified_def splitQualified_join)
  have "set ?F = (\<lambda>ns. ns @ ''.'' @ name) ` set ?N"
  proof (intro set_eqI iffI)
    fix qn assume "qn \<in> set ?F"
    then obtain s nm where q: "qn = Namespace s @ ''.'' @ nm" "s \<in> set schemas"
        "nm \<in> set (declaredNames s)" and b: "baseNameFromQualified qn = name"
      by (auto simp: set_registerKnownTypes)
    from b q base have "nm = name" by simp
    with q show "qn \<in> (\<lambda>ns. ns @ ''.'' @ name) ` set ?N"
      by (auto simp: set_namespacesDeclaring)
  next
    fix qn assume "qn \<in> (\<lambda>ns. ns @ ''.'' @ name) ` set ?N"
    then obtain s where q: "qn = Namespace s @ ''.'' @ name" "s \<in> set schemas"
        "name \<in> set (declaredNames s)"
      by (auto simp: set_namespacesDeclaring)
    then have "qn \<in> set ?K" by (auto simp: set_registerKnownTypes)
    moreover from q base have "baseNameFromQualified qn = name" by simp
    ultimately show "qn \<in> set ?F" by simp
  qed
  moreover have "inj_on (\<lambda>ns. ns @ ''.'' @ name) (set ?N)"
    by (simp add: inj_on_def)
  ultimately have c: "card (set ?F) = card (set ?N)"
    by (simp add: card_image)
  have dF: "distinct ?F" by (simp add: registerKnownTypes_def)
  have dN: "distinct ?N" by (simp add: namespacesDeclaring_def)
  have "length ?F = card (set ?F)" using dF by (rule distinct_card [symmetric])
  also have "\<dots> = card (set ?N)" by (rule c)
  also have "\<dots> = length ?N" using dN by (rule distinct_card)
  finally show ?thesis by (simp only: conflictNames_def)
qed

lemma typeNameMap_generate_state:
  assumes wf: "\<forall>s\<in>set schemas. \<forall>nm\<in>set (declaredNames s). CHR ''.'' \<notin> set nm"
    and s: "s \<in> set schemas" and nm: "name \<in> set (declaredNames s)"
  shows "typeNameMap (generate_state schemas os) (Namespace s @ ''.'' @ name) =
           Some (if needPrefix os (distinctNamespaces schemas)
                    \<or> 1 < length (namespacesDeclaring schemas name)
                 then (if Namespace s = '''' then '''' else namespaceAlias (Namespace s))
                      @ goExported name
                 else goExported name)"
proof -
  have k: "Namespace s @ ''.'' @ name \<in> set (registerKnownTypes schemas)"
    using s nm by (auto simp: set_registerKnownTypes)
  have d: "CHR ''.'' \<notin> set name" using wf s nm by blast
  have a: "Namespace s \<noteq> '''' \<Longrightarrow> Namespace s \<in> set (distinctNamespaces schemas)"
    using s by (simp add: distinctNamespaces_def)
  have e: "'''' \<notin> set (distinctNamespaces schemas)"
    by (simp add: distinctNamespaces_def)
  show ?thesis
    using k a e
    by (simp add: generate_state_def Let_def goTypeName_def splitQualified_join [OF d]
        splitQualified_join_Nil [OF d] conflictNames_eq [OF wf] lookupStr_def)
qed

text \<open>
  Claim C1, as the code has it. Under \<open>-ns-prefix=auto\<close>, for a schema load whose
  declared names contain no dot and a type \<open>name\<close> declared in the schema \<open>s\<close>:
  when the load has at most one distinct non-empty namespace and \<open>name\<close> is declared in
  exactly one namespace, the type is rendered as the exported local name alone; when
  \<open>name\<close> is declared in two or more namespaces, or when the load has two or more
  distinct non-empty namespaces (whether or not \<open>name\<close> collides), the type is rendered
  with the alias of its non-empty namespace in front.
\<close>

theorem auto_qualification:
  assumes "NsPrefixMode os = ''auto''"
    and "\<forall>s\<in>set schemas. \<forall>nm\<in>set (declaredNames s). CHR ''.'' \<notin> set nm"
    and "s \<in> set schemas" and "name \<in> set (declaredNames s)"
  shows "(length (distinctNamespaces schemas) \<le> 1
            \<and> length (namespacesDeclaring schemas name) = 1 \<longrightarrow>
          typeNameMap (generate_state schemas os) (Namespace s @ ''.'' @ name)
            = Some (goExported name))
       \<and> (Namespace s \<noteq> '''' \<and> 2 \<le> length (namespacesDeclaring schemas name) \<longrightarrow>
          typeNameMap (generate_state schemas os) (Namespace s @ ''.'' @ name)
            = Some (namespaceAlias (Namespace s) @ goExported name))
       \<and> (Namespace s \<noteq> '''' \<and> 2 \<le> length (distinctNamespaces schemas) \<longrightarrow>
          typeNameMap (generate_state schemas os) (Namespace s @ ''.'' @ name)
            = Some (namespaceAlias (Namespace s) @ goExported name))"
  using assms(1) typeNameMap_generate_state [OF assms(2,3,4), of os]
  by (auto simp: needPrefix_def)

text \<open>
  Claim C1, witness. With the single namespace \<open>A\<close> declaring \<open>Foo\<close>, the type is
  rendered \<open>Foo\<close>; with \<open>Foo\<close> declared in both \<open>A\<close> and \<open>B\<close>, the declaration of \<open>A\<close> is
  rendered \<open>AFoo\<close>.
\<close>

theorem auto_qualification_witness:
  "typeNameMap (generate_state
      [\<lparr>Namespace = ''A'', EntityTypes = [''Foo''], ComplexTypes = [], EnumTypes = []\<rparr>]
      \<lparr>PkgName = ''models'', DecimalMode = ''shopspring'', NsPrefixMode = ''auto'',
       InPath = '''', OutPath = ''''\<rparr>) ''A.Foo'' = Some ''Foo''
   \<and> typeNameMap (generate_state
      [\<lparr>Namespace = ''A'', EntityTypes = [''Foo''], ComplexTypes = [], EnumTypes = []\<rparr>,
       \<lparr>Namespace = ''B'', EntityTypes = [], ComplexTypes = [''Foo''], EnumTypes = []\<rparr>]
      \<lparr>PkgName = ''models'', DecimalMode = ''shopspring'', NsPrefixMode = ''auto'',
       InPath = '''', OutPath = ''''\<rparr>) ''A.Foo'' = Some ''AFoo''"
proof -
  let ?os = "\<lparr>PkgName = ''models'', DecimalMode = ''shopspring'', NsPrefixMode = ''auto'',
              InPath = '''', OutPath = ''''\<rparr>"
  let ?a = "\<lparr>Namespace = ''A'', EntityTypes = [''Foo''], ComplexTypes = [], EnumTypes = []\<rparr>"
  let ?b = "\<lparr>Namespace = ''B'', EntityTypes = [], ComplexTypes = [''Foo''], EnumTypes = []\<rparr>"
  have g: "goExported ''Foo'' = ''Foo''"
    by (simp add: goExported_def unicode_ToUpper_def unicode_IsLetter_def unicode_IsDigit_def
        ascii_upper_def ascii_lower_def)
  have al: "namespaceAlias ''A'' = ''A''"
    by (simp add: namespaceAlias_def sanitizeIdent_def goExported_def unicode_ToUpper_def
        unicode_IsLetter_def unicode_IsDigit_def ascii_upper_def ascii_lower_def)
  have one: "typeNameMap (generate_state [?a] ?os) ''A.Foo'' = Some ''Foo''"
    using auto_qualification [of ?os "[?a]" ?a "''Foo''"]
    by (simp add: declaredNames_def distinctNamespaces_def namespacesDeclaring_def g)
  have two: "typeNameMap (generate_state [?a, ?b] ?os) ''A.Foo'' = Some ''AFoo''"
    using auto_qualification [of ?os "[?a, ?b]" ?a "''Foo''"]
    by (simp add: declaredNames_def distinctNamespaces_def namespacesDeclaring_def g al)
  from one two show ?thesis by simp
qed

text \<open>
  Claim C1, counterexample. The load has the namespaces \<open>A\<close>, declaring \<open>Foo\<close>, and \<open>B\<close>,
  declaring \<open>Bar\<close>. Under \<open>auto\<close> the local name \<open>Foo\<close> occurs in exactly one namespace,
  and yet the type is rendered \<open>AFoo\<close>, with the alias in front, not \<open>Foo\<close>.
\<close>

theorem auto_qualifies_unique_name:
  "namespacesDeclaring
      [\<lparr>Namespace = ''A'', EntityTypes = [''Foo''], ComplexTypes = [], EnumTypes = []\<rparr>,
       \<lparr>Namespace = ''B'', EntityTypes = [''Bar''], ComplexTypes = [], EnumTypes = []\<rparr>]
      ''Foo'' = [''A'']
   \<and> typeNameMap (generate_state
      [\<lparr>Namespace = ''A'', EntityTypes = [''Foo''], ComplexTypes = [], EnumTypes = []\<rparr>,
       \<lparr>Namespace = ''B'', EntityTypes = [''Bar''], ComplexTypes = [], EnumTypes = []\<rparr>]
      \<lparr>PkgName = ''models'', DecimalMode = ''shopspring'', NsPrefixMode = ''auto'',
       InPath = '''', OutPath = ''''\<rparr>) ''A.Foo'' = Some ''AFoo''
   \<and> goExported ''Foo'' = ''Foo''"
  by code_simp

section \<open>Properties: resolving type references\<close>

lemma HasPrefix_append: "strings_HasPrefix (p @ r) p"
  by (simp add: strings_HasPrefix_def)

lemma HasSuffix_append: "strings_HasSuffix (r @ p) p"
  by (simp add: strings_HasSuffix_def)

lemma isCollection_wrap: "isCollection (''Collection('' @ X @ '')'') = (True, X)"
proof -
  have p: "strings_HasPrefix (''Collection('' @ X @ '')'') ''Collection(''"
    by (rule HasPrefix_append)
  have s: "strings_HasSuffix (''Collection('' @ X @ '')'') '')''"
    using HasSuffix_append [of "''Collection('' @ X" "'')''"] by simp
  have t: "take (length (''Collection('' @ X @ '')'') - 12)
             (drop 11 (''Collection('' @ X @ '')'')) = X"
    by simp
  show ?thesis
    unfolding isCollection_def using p s t by simp
qed

lemma reCollection_wrap:
  assumes "X \<noteq> []" "CHR 0x0A \<notin> set X"
  shows "reCollection (''Collection('' @ X @ '')'') = Some X"
  using isCollection_wrap [of X] assms
  by (simp add: reCollection_def isCollection_def Let_def split: if_splits)

lemma resolveTypeRef_collection:
  assumes "reCollection raw = Some X"
  shows "resolveTypeRef st raw h ctxNS =
           (''[]'' @ stripPointer (fst (resolveTypeRef st X None ctxNS)),
            snd (resolveTypeRef st X None ctxNS))"
  using assms by (subst resolveTypeRef.simps) (simp add: Let_def split: prod.splits)

lemma resolveTypeRef_edm:
  assumes "reCollection raw = None" "strings_HasPrefix raw ''Edm.''"
  shows "fst (resolveTypeRef st raw h ctxNS) = fst (mapEdmToGo st raw (boolOrDefault h True))"
  using assms by (subst resolveTypeRef.simps) (simp add: Let_def split: prod.splits)

lemma resolveTypeRef_named:
  assumes "reCollection raw = None" "\<not> strings_HasPrefix raw ''Edm.''"
  shows "resolveTypeRef st raw h ctxNS =
           (let qn = (if \<not> strings_ContainsChar raw (CHR ''.'') then ctxNS @ ''.'' @ raw
                      else raw);
                goName = lookupStr (typeNameMap st) qn
            in if goName = '''' then (''interface{}'', st)
               else if boolOrDefault h True \<and> isStructNamedType goName
                 then (''*'' @ goName, st)
               else (goName, st))"
  using assms by (subst resolveTypeRef.simps) simp

lemma reCollection_edm:
  "raw \<in> set mapEdmToGo_cases \<Longrightarrow>
     reCollection raw = None \<and> strings_HasPrefix raw ''Edm.''"
  by (auto simp: mapEdmToGo_cases_def reCollection_def strings_HasPrefix_def)

lemma getGoType_collection:
  assumes "\<not> fst (isCollection X)"
  shows "getGoType (''Collection('' @ X @ '')'') b = ''[]'' @ getGoType X False"
proof -
  have w: "isCollection (''Collection('' @ X @ '')'') = (True, X)"
    by (rule isCollection_wrap)
  have n: "isCollection X = (False, X)"
    using assms by (simp add: isCollection_def split: if_splits)
  show ?thesis
    unfolding getGoType_def w n by (simp add: Let_def split: option.splits)
qed

text \<open>
  Claim C3, as the code has it. In the plain Go generator (\<open>getGoType\<close>), a
  non-collection property whose primitive type maps to \<open>string\<close>, \<open>[]byte\<close> or
  \<open>time.Time\<close> resolves to that type with no pointer, whatever its nullability. In the
  Go struct generator (\<open>resolveTypeRef\<close>, \<open>mapEdmToGo\<close>), binary and date/time
  properties (\<open>Edm.Binary\<close>; \<open>Edm.Date\<close>, \<open>Edm.DateTime\<close>, \<open>Edm.DateTimeOffset\<close>) resolve
  to \<open>[]byte\<close> and \<open>time.Time\<close> with no pointer whatever the nullability, while
  \<open>Edm.String\<close> resolves to \<open>string\<close> only when nullable is false, and to \<open>*string\<close> when
  it is true or unspecified.
\<close>

theorem empty_representable_kinds:
  "(\<not> fst (isCollection edmType) \<and> edmToGo (extractEdmTypeName edmType) = Some g
      \<and> g \<in> {''string'', ''[]byte'', ''time.Time''} \<longrightarrow>
      getGoType edmType isNullable = g)
   \<and> fst (resolveTypeRef st ''Edm.Binary'' h ctxNS) = ''[]byte''
   \<and> (raw \<in> {''Edm.Date'', ''Edm.DateTime'', ''Edm.DateTimeOffset''} \<longrightarrow>
      fst (resolveTypeRef st raw h ctxNS) = ''time.Time'')
   \<and> fst (resolveTypeRef st ''Edm.String'' h ctxNS)
       = (if boolOrDefault h True then ''*string'' else ''string'')"
proof (intro conjI impI)
  assume a: "\<not> fst (isCollection edmType) \<and> edmToGo (extractEdmTypeName edmType) = Some g
      \<and> g \<in> {''string'', ''[]byte'', ''time.Time''}"
  then have n: "isCollection edmType = (False, edmType)"
    by (simp add: isCollection_def split: if_splits)
  from a show "getGoType edmType isNullable = g"
    unfolding getGoType_def n by (auto simp: Let_def)
next
  show "fst (resolveTypeRef st ''Edm.Binary'' h ctxNS) = ''[]byte''"
    using reCollection_edm [of "''Edm.Binary''"]
    by (simp add: resolveTypeRef_edm mapEdmToGo_cases_def mapEdmToGo_def)
next
  assume "raw \<in> {''Edm.Date'', ''Edm.DateTime'', ''Edm.DateTimeOffset''}"
  then have r: "raw = ''Edm.Date'' \<or> raw = ''Edm.DateTime'' \<or> raw = ''Edm.DateTimeOffset''"
    by simp
  then have "raw \<in> set mapEdmToGo_cases"
    by (auto simp: mapEdmToGo_cases_def)
  from reCollection_edm [OF this] r
  show "fst (resolveTypeRef st raw h ctxNS) = ''time.Time''"
    by (auto simp: resolveTypeRef_edm mapEdmToGo_def)
next
  show "fst (resolveTypeRef st ''Edm.String'' h ctxNS)
          = (if boolOrDefault h True then ''*string'' else ''string'')"
    using reCollection_edm [of "''Edm.String''"]
    by (simp add: resolveTypeRef_edm mapEdmToGo_cases_def mapEdmToGo_def ptrIf_def)
qed

text \<open>
  Claim C3, witness: in the plain Go generator \<open>Edm.String\<close> with nullable true is
  \<open>string\<close>, and in the Go struct generator \<open>Edm.DateTimeOffset\<close> with nullable true is
  \<open>time.Time\<close>.
\<close>

theorem empty_representable_kinds_witness:
  "getGoType ''Edm.String'' True = ''string''
   \<and> fst (resolveTypeRef (generate_state []
        \<lparr>PkgName = ''models'', DecimalMode = ''shopspring'', NsPrefixMode = ''auto'',
         InPath = '''', OutPath = ''''\<rparr>) ''Edm.DateTimeOffset'' (Some True) ''NS'')
       = ''time.Time''"
proof -
  have c: "\<not> fst (isCollection ''Edm.String'')"
    by (simp add: isCollection_def strings_HasPrefix_def)
  have e: "edmToGo (extractEdmTypeName ''Edm.String'') = Some ''string''"
    by (simp add: extractEdmTypeName_def strings_TrimPrefix_def strings_TrimSuffix_def
        strings_HasPrefix_def strings_HasSuffix_def strings_SplitN2_def edmToGo_def)
  show ?thesis
    using empty_representable_kinds
      [of "''Edm.String''" "''string''" True _ _ _ "''Edm.DateTimeOffset''"] c e
    by simp
qed

text \<open>
  Claim C3, counterexample: in the Go struct generator a property of type \<open>Edm.String\<close>
  with nullable true resolves to \<open>*string\<close>, a pointer, not to \<open>string\<close>.
\<close>

theorem nullable_string_is_pointer:
  "fst (resolveTypeRef (generate_state []
        \<lparr>PkgName = ''models'', DecimalMode = ''shopspring'', NsPrefixMode = ''auto'',
         InPath = '''', OutPath = ''''\<rparr>) ''Edm.String'' (Some True) ''NS'') = ''*string''"
  by code_simp

text \<open>
  Claim C6. For every non-empty inner reference \<open>X\<close> without a line feed and every
  nullability hint \<open>h\<close>, the Go struct generator resolves \<open>Collection(X)\<close> to the slice of
  what \<open>X\<close> resolves to with the hint cleared, the pointer of the element removed, and
  leaves the state as that resolution leaves it; the result is no pointer. In the plain
  Go generator, for \<open>X\<close> that is not itself a collection, \<open>Collection(X)\<close> resolves to the
  slice of what \<open>X\<close> resolves to with nullable false, whatever the hint.
\<close>

theorem collection_resolution:
  assumes "X \<noteq> []" and "CHR 0x0A \<notin> set X"
  shows "resolveTypeRef st (''Collection('' @ X @ '')'') h ctxNS =
           (''[]'' @ stripPointer (fst (resolveTypeRef st X None ctxNS)),
            snd (resolveTypeRef st X None ctxNS))
       \<and> \<not> strings_HasPrefix (fst (resolveTypeRef st (''Collection('' @ X @ '')'') h ctxNS)) ''*''
       \<and> (\<not> fst (isCollection X) \<longrightarrow>
            getGoType (''Collection('' @ X @ '')'') b = ''[]'' @ getGoType X False)"
proof -
  have r: "resolveTypeRef st (''Collection('' @ X @ '')'') h ctxNS =
           (''[]'' @ stripPointer (fst (resolveTypeRef st X None ctxNS)),
            snd (resolveTypeRef st X None ctxNS))"
    by (rule resolveTypeRef_collection [OF reCollection_wrap [OF assms]])
  have "\<not> strings_HasPrefix (fst (resolveTypeRef st (''Collection('' @ X @ '')'') h ctxNS)) ''*''"
    unfolding r by (simp add: strings_HasPrefix_def)
  with r getGoType_collection show ?thesis by blast
qed

text \<open>
  Claim C6, witness: \<open>Collection(Edm.Int32)\<close> with the hint true resolves to \<open>[]int32\<close> in
  both generators.
\<close>

theorem collection_resolution_witness:
  "fst (resolveTypeRef (generate_state []
        \<lparr>PkgName = ''models'', DecimalMode = ''shopspring'', NsPrefixMode = ''auto'',
         InPath = '''', OutPath = ''''\<rparr>) ''Collection(Edm.Int32)'' (Some True) ''NS'')
     = ''[]int32''
   \<and> getGoType ''Collection(Edm.Int32)'' True = ''[]int32''"
proof -
  let ?st = "generate_state []
        \<lparr>PkgName = ''models'', DecimalMode = ''shopspring'', NsPrefixMode = ''auto'',
         InPath = '''', OutPath = ''''\<rparr>"
  have i: "fst (resolveTypeRef ?st ''Edm.Int32'' None ''NS'') = ''*int32''"
    by code_simp
  have g: "getGoType ''Edm.Int32'' False = ''int32''"
    by code_simp
  have c: "\<not> fst (isCollection ''Edm.Int32'')"
    by (simp add: isCollection_def strings_HasPrefix_def)
  have s: "stripPointer ''*int32'' = ''int32''"
    by (simp add: stripPointer_def strings_HasPrefix_def strings_TrimPrefix_def)
  show ?thesis
    using collection_resolution [of "''Edm.Int32''" ?st "Some True" "''NS''" True] c
    by (simp add: i g s)
qed

lemma getZodType_unfold:
  "getZodType t b target =
     (let isColl = fst (isCollection t);
          innerName = extractEdmTypeName (snd (isCollection t));
          r = (case edmToZod innerName of
                 Some zod \<Rightarrow> (zod, [])
               | None \<Rightarrow>
                   if innerName \<noteq> '''' then
                     (''z.lazy(() => ''
                        @ (if target = '''' then innerName @ ''Schema'' else target) @ '')'', [])
                   else (''z.unknown()'', [UnknownZodType t]))
      in if isColl then (''z.array('' @ fst r @ '')'' @ ''.nullish()'', snd r)
         else (fst r @ ''.nullish()'', snd r))"
proof -
  obtain c i where ci: "isCollection t = (c, i)" by (cases "isCollection t")
  show ?thesis
    unfolding getZodType_def ci
    by (cases "edmToZod (extractEdmTypeName i)") (simp_all add: Let_def)
qed

lemma edmToZod_empty: "edmToZod '''' = None"
  by (simp add: edmToZod_def)

text \<open>
  Claim C9, as the code has it. No resolver has a failing branch, so a reference that
  cannot be resolved never aborts the run. The Go struct generator resolves a reference
  without the \<open>Edm.\<close> prefix whose qualified name has no Go type name to the opaque
  \<open>interface{}\<close> (to \<open>[]interface{}\<close> inside a collection), and an \<open>Edm.\<close> name outside
  its table to a string type. The Zod generator does not consult the declarations: a
  local name outside its primitive table resolves to a lazy reference to the schema named
  after it, without a warning, and only an empty local name degrades to \<open>z.unknown()\<close>,
  with a warning in the log.
\<close>

theorem unresolved_reference_degrades:
  "(reCollection raw = None \<and> \<not> strings_HasPrefix raw ''Edm.''
      \<and> lookupStr (typeNameMap st)
           (if \<not> strings_ContainsChar raw (CHR ''.'') then ctxNS @ ''.'' @ raw else raw) = ''''
      \<longrightarrow> resolveTypeRef st raw h ctxNS = (''interface{}'', st)
          \<and> (raw \<noteq> [] \<and> CHR 0x0A \<notin> set raw \<longrightarrow>
               resolveTypeRef st (''Collection('' @ raw @ '')'') h ctxNS
                 = (''[]interface{}'', st)))
   \<and> (reCollection raw = None \<and> strings_HasPrefix raw ''Edm.'' \<and> raw \<notin> set mapEdmToGo_cases
      \<longrightarrow> fst (resolveTypeRef st raw h ctxNS)
            = (if boolOrDefault h True then ''*string'' else ''string''))
   \<and> (edmToZod (extractEdmTypeName (snd (isCollection t))) = None
        \<and> extractEdmTypeName (snd (isCollection t)) \<noteq> ''''
      \<longrightarrow> getZodType t b '''' =
            ((if fst (isCollection t)
              then ''z.array(z.lazy(() => '' @ extractEdmTypeName (snd (isCollection t))
                     @ ''Schema))''
              else ''z.lazy(() => '' @ extractEdmTypeName (snd (isCollection t)) @ ''Schema)'')
             @ ''.nullish()'', []))
   \<and> (extractEdmTypeName (snd (isCollection t)) = ''''
      \<longrightarrow> getZodType t b target =
            ((if fst (isCollection t) then ''z.array(z.unknown())'' else ''z.unknown()'')
             @ ''.nullish()'', [UnknownZodType t]))"
proof (intro conjI impI)
  assume a: "reCollection raw = None \<and> \<not> strings_HasPrefix raw ''Edm.''
      \<and> lookupStr (typeNameMap st)
           (if \<not> strings_ContainsChar raw (CHR ''.'') then ctxNS @ ''.'' @ raw else raw) = ''''"
  then show r: "resolveTypeRef st raw h ctxNS = (''interface{}'', st)" for h
    by (simp add: resolveTypeRef_named Let_def)
  assume "raw \<noteq> [] \<and> CHR 0x0A \<notin> set raw"
  then have x: "raw \<noteq> []" "CHR 0x0A \<notin> set raw" by simp_all
  have "reCollection (''Collection('' @ raw @ '')'') = Some raw"
    by (rule reCollection_wrap [OF x])
  from resolveTypeRef_collection [OF this, of st h ctxNS]
  show "resolveTypeRef st (''Collection('' @ raw @ '')'') h ctxNS = (''[]interface{}'', st)"
    by (simp add: r stripPointer_def strings_HasPrefix_def)
next
  assume "reCollection raw = None \<and> strings_HasPrefix raw ''Edm.''
      \<and> raw \<notin> set mapEdmToGo_cases"
  then show "fst (resolveTypeRef st raw h ctxNS)
            = (if boolOrDefault h True then ''*string'' else ''string'')"
    by (simp add: resolveTypeRef_edm mapEdmToGo_def mapEdmToGo_cases_def ptrIf_def)
next
  assume "edmToZod (extractEdmTypeName (snd (isCollection t))) = None
        \<and> extractEdmTypeName (snd (isCollection t)) \<noteq> ''''"
  then show "getZodType t b '''' =
            ((if fst (isCollection t)
              then ''z.array(z.lazy(() => '' @ extractEdmTypeName (snd (isCollection t))
                     @ ''Schema))''
              else ''z.lazy(() => '' @ extractEdmTypeName (snd (isCollection t)) @ ''Schema)'')
             @ ''.nullish()'', [])"
    by (simp add: getZodType_unfold Let_def)
next
  assume "extractEdmTypeName (snd (isCollection t)) = ''''"
  then show "getZodType t b target =
            ((if fst (isCollection t) then ''z.array(z.unknown())'' else ''z.unknown()'')
             @ ''.nullish()'', [UnknownZodType t])"
    by (simp add: getZodType_unfold Let_def edmToZod_empty)
qed

text \<open>
  Claim C9, witness. With no declarations, the Go struct generator resolves \<open>NS.Missing\<close>
  to \<open>interface{}\<close> and \<open>Edm.Geography\<close> to \<open>*string\<close>; the Zod generator resolves
  \<open>NS.Missing\<close> to a lazy reference and the empty reference to \<open>z.unknown()\<close>.
\<close>

theorem unresolved_reference_degrades_witness:
  "fst (resolveTypeRef (generate_state []
        \<lparr>PkgName = ''models'', DecimalMode = ''shopspring'', NsPrefixMode = ''auto'',
         InPath = '''', OutPath = ''''\<rparr>) ''NS.Missing'' None ''NS'') = ''interface{}''
   \<and> fst (resolveTypeRef (generate_state []
        \<lparr>PkgName = ''models'', DecimalMode = ''shopspring'', NsPrefixMode = ''auto'',
         InPath = '''', OutPath = ''''\<rparr>) ''Collection(NS.Missing)'' None ''NS'')
       = ''[]interface{}''
   \<and> fst (resolveTypeRef (generate_state []
        \<lparr>PkgName = ''models'', DecimalMode = ''shopspring'', NsPrefixMode = ''auto'',
         InPath = '''', OutPath = ''''\<rparr>) ''Edm.Geography'' None ''NS'') = ''*string''
   \<and> getZodType ''Collection(NS.Missing)'' False ''''
       = (''z.array(z.lazy(() => MissingSchema)).nullish()'', [])
   \<and> getZodType '''' False '''' = (''z.unknown().nullish()'', [UnknownZodType ''''])"
proof -
  let ?st = "generate_state []
        \<lparr>PkgName = ''models'', DecimalMode = ''shopspring'', NsPrefixMode = ''auto'',
         InPath = '''', OutPath = ''''\<rparr>"
  have m: "reCollection ''NS.Missing'' = None \<and> \<not> strings_HasPrefix ''NS.Missing'' ''Edm.''
      \<and> lookupStr (typeNameMap ?st)
           (if \<not> strings_ContainsChar ''NS.Missing'' (CHR ''.'') then ''NS'' @ ''.'' @ ''NS.Missing''
            else ''NS.Missing'') = ''''"
    by code_simp
  have g: "reCollection ''Edm.Geography'' = None \<and> strings_HasPrefix ''Edm.Geography'' ''Edm.''
      \<and> ''Edm.Geography'' \<notin> set mapEdmToGo_cases"
    by code_simp
  have z: "isCollection ''Collection(NS.Missing)'' = (True, ''NS.Missing'')
      \<and> extractEdmTypeName ''NS.Missing'' = ''Missing'' \<and> edmToZod ''Missing'' = None"
    by code_simp
  have e: "isCollection '''' = (False, '''') \<and> extractEdmTypeName '''' = ''''"
    by code_simp
  have 1: "fst (resolveTypeRef ?st ''NS.Missing'' None ''NS'') = ''interface{}''
      \<and> fst (resolveTypeRef ?st ''Collection(NS.Missing)'' None ''NS'') = ''[]interface{}''"
    using unresolved_reference_degrades
      [where raw = "''NS.Missing''" and st = ?st and ctxNS = "''NS''" and h = None] m
    by simp
  have 2: "fst (resolveTypeRef ?st ''Edm.Geography'' None ''NS'') = ''*string''"
    using unresolved_reference_degrades
      [where raw = "''Edm.Geography''" and st = ?st and ctxNS = "''NS''" and h = None] g
    by (simp add: boolOrDefault_def)
  have 3: "getZodType ''Collection(NS.Missing)'' False ''''
       = (''z.array(z.lazy(() => MissingSchema)).nullish()'', [])"
    using unresolved_reference_degrades [where t = "''Collection(NS.Missing)''" and b = False] z
    by simp
  have 4: "getZodType '''' False '''' = (''z.unknown().nullish()'', [UnknownZodType ''''])"
    using unresolved_reference_degrades [where t = "''''" and b = False and target = "''''"] e
    by simp
  from 1 2 3 4 show ?thesis by simp
qed

text \<open>
  Claim C9, counterexample: the Zod generator resolves the reference \<open>NS.Missing\<close>, whose
  local name is no primitive and (there being no declarations) no declared type, to a lazy
  reference to \<open>MissingSchema\<close>, not to an unknown or opaque descriptor, and logs nothing.
\<close>

theorem zod_unknown_name_is_lazy_reference:
  "getZodType ''NS.Missing'' False '''' = (''z.lazy(() => MissingSchema).nullish()'', [])"
  by code_simp

section \<open>Properties: enumerations\<close>

text \<open>
  Claim C4, at the failing input. For the enumeration \<open>Status\<close> with the members \<open>Open\<close>
  (no value), \<open>Closed = 5\<close> and \<open>Cancelled\<close> (no value), \<open>emitEnum\<close> of the Go struct
  generator writes \<open>Cancelled\<close> without an expression; in the emitted Go constant block
  it therefore repeats the expression of \<open>Closed\<close> and has the value 5, not 6.
\<close>

theorem emitEnum_status_values:
  "emitEnum_constBlock
     (generate_state
        [\<lparr>Namespace = ''NS'', EntityTypes = [], ComplexTypes = [], EnumTypes = [''Status'']\<rparr>]
        \<lparr>PkgName = ''models'', DecimalMode = ''shopspring'', NsPrefixMode = ''auto'',
         InPath = '''', OutPath = ''''\<rparr>)
     \<lparr>enumNamespace = ''NS'', enumName = ''Status'', enumUnderlying = '''',
      enumMembers = [\<lparr>memberName = ''Open'', memberValue = ''''\<rparr>,
                     \<lparr>memberName = ''Closed'', memberValue = ''5''\<rparr>,
                     \<lparr>memberName = ''Cancelled'', memberValue = ''''\<rparr>],
      enumIsFlags = False\<rparr>
     = ''  StatusOpen Status = iota'' @ [CHR 0x0A]
       @ ''  StatusClosed Status = 5'' @ [CHR 0x0A]
       @ ''  StatusCancelled'' @ [CHR 0x0A]
   \<and> goConstValues 0 None
       (emitEnum_consts
         (generate_state
            [\<lparr>Namespace = ''NS'', EntityTypes = [], ComplexTypes = [], EnumTypes = [''Status'']\<rparr>]
            \<lparr>PkgName = ''models'', DecimalMode = ''shopspring'', NsPrefixMode = ''auto'',
             InPath = '''', OutPath = ''''\<rparr>)
         \<lparr>enumNamespace = ''NS'', enumName = ''Status'', enumUnderlying = '''',
          enumMembers = [\<lparr>memberName = ''Open'', memberValue = ''''\<rparr>,
                         \<lparr>memberName = ''Closed'', memberValue = ''5''\<rparr>,
                         \<lparr>memberName = ''Cancelled'', memberValue = ''''\<rparr>],
          enumIsFlags = False\<rparr>)
     = [(''StatusOpen'', Some 0), (''StatusClosed'', Some 5), (''StatusCancelled'', Some 5)]"
  by code_simp

text \<open>The plain Go generator and the Zod generator give the same enumeration the values
  0, 5 and 6.\<close>

lemma generateEnum_status_values:
  "generateEnum ''Status''
     [\<lparr>memberName = ''Open'', memberValue = ''''\<rparr>,
      \<lparr>memberName = ''Closed'', memberValue = ''5''\<rparr>,
      \<lparr>memberName = ''Cancelled'', memberValue = ''''\<rparr>]
     = ([(''Open'', 0), (''Closed'', 5), (''Cancelled'', 6)], [])
   \<and> map zodNumeric (generateZodEnum
       [\<lparr>memberName = ''Open'', memberValue = ''''\<rparr>,
        \<lparr>memberName = ''Closed'', memberValue = ''5''\<rparr>,
        \<lparr>memberName = ''Cancelled'', memberValue = ''''\<rparr>]) = [0, 5, 6]"
  by code_simp





lemma unmarshalFlagsParts_ok:
  "map nameToValue (filter (\<lambda>p. p \<noteq> '''') (map strings_TrimSpace ps)) = map Some vs
     \<Longrightarrow> unmarshalFlagsParts nameToValue v ps = Inr (foldl (OR) v vs)"
proof (induction ps arbitrary: v vs)
  case Nil
  then show ?case by simp
next
  case (Cons p ps)
  show ?case
  proof (cases "strings_TrimSpace p = ''''")
    case True
    with Cons show ?thesis by simp
  next
    case False
    with Cons.prems obtain mv vs' where v: "vs = mv # vs'"
        "nameToValue (strings_TrimSpace p) = Some mv"
        "map nameToValue (filter (\<lambda>p. p \<noteq> '''') (map strings_TrimSpace ps)) = map Some vs'"
      by (cases vs) auto
    from Cons.IH [OF v(3)] False v(1,2) show ?thesis by simp
  qed
qed

lemma unmarshalFlagsParts_error:
  "unmarshalFlagsParts nameToValue v ps = Inl e \<Longrightarrow>
     \<exists>p\<in>set (filter (\<lambda>p. p \<noteq> '''') (map strings_TrimSpace ps)).
        nameToValue p = None \<and> e = InvalidEnumValue p"
  by (induction ps arbitrary: v) (auto simp: Let_def split: if_splits option.splits)

lemma unmarshalFlagsParts_unknown:
  "\<exists>p\<in>set (filter (\<lambda>p. p \<noteq> '''') (map strings_TrimSpace ps)). nameToValue p = None \<Longrightarrow>
     \<exists>e. unmarshalFlagsParts nameToValue v ps = Inl e"
  by (induction ps arbitrary: v) (auto simp: Let_def split: if_splits option.splits)

lemma listedNames_empty: "listedNames '''' = []"
  by (simp add: listedNames_def strings_TrimSpace_def)

lemma unmarshalEnumString_flags:
  "unmarshalEnumString True nameToValue s =
     unmarshalFlagsParts nameToValue 0 (strings_Split s (CHR '',''))"
  by (simp add: unmarshalEnumString_def strings_TrimSpace_def)

text \<open>
  Claim C7. The decoder that \<open>emitEnum\<close> writes for a flags enumeration, applied to a
  text: the empty text decodes to zero; when every listed name is a member, the text
  decodes to the bitwise or of the members' values; and decoding fails, with the error
  naming a listed name that is no member, exactly when some listed name is no member.
\<close>

theorem flags_decoding:
  "unmarshalEnumString True nameToValue '''' = Inr 0
   \<and> (map nameToValue (listedNames s) = map Some vs \<longrightarrow>
        unmarshalEnumString True nameToValue s = Inr (foldl (OR) 0 vs))
   \<and> ((\<exists>e. unmarshalEnumString True nameToValue s = Inl e)
        \<longleftrightarrow> (\<exists>p\<in>set (listedNames s). nameToValue p = None))
   \<and> (unmarshalEnumString True nameToValue s = Inl e \<longrightarrow>
        (\<exists>p\<in>set (listedNames s). nameToValue p = None \<and> e = InvalidEnumValue p))"
proof (intro conjI impI)
  show "unmarshalEnumString True nameToValue '''' = Inr 0"
    by (simp add: unmarshalEnumString_def)
next
  assume "map nameToValue (listedNames s) = map Some vs"
  then show "unmarshalEnumString True nameToValue s = Inr (foldl (OR) 0 vs)"
    unfolding unmarshalEnumString_flags listedNames_def by (rule unmarshalFlagsParts_ok)
next
  show "(\<exists>e. unmarshalEnumString True nameToValue s = Inl e)
        \<longleftrightarrow> (\<exists>p\<in>set (listedNames s). nameToValue p = None)"
    unfolding unmarshalEnumString_flags listedNames_def
    using unmarshalFlagsParts_error [of nameToValue 0 "strings_Split s (CHR '','')"]
      unmarshalFlagsParts_unknown [of "strings_Split s (CHR '','')" nameToValue 0]
    by blast
next
  assume "unmarshalEnumString True nameToValue s = Inl e"
  then show "\<exists>p\<in>set (listedNames s). nameToValue p = None \<and> e = InvalidEnumValue p"
    unfolding unmarshalEnumString_flags listedNames_def
    by (rule unmarshalFlagsParts_error)
qed

text \<open>
  Claim C7, witness: with the members \<open>A = 1\<close> and \<open>B = 2\<close>, the text \<open>A,B\<close> decodes to 3
  and the text \<open>A,C\<close> fails on \<open>C\<close>.
\<close>

theorem flags_decoding_witness:
  "unmarshalEnumString True [''A'' \<mapsto> 1, ''B'' \<mapsto> 2] ''A,B'' = Inr 3
   \<and> unmarshalEnumString True [''A'' \<mapsto> 1, ''B'' \<mapsto> 2] ''A,C'' = Inl (InvalidEnumValue ''C'')"
proof -
  let ?m = "[''A'' \<mapsto> 1, ''B'' \<mapsto> 2] :: string \<rightharpoonup> int"
  have ab: "listedNames ''A,B'' = [''A'', ''B'']"
    by (simp add: listedNames_def strings_TrimSpace_def unicode_IsSpace_def)
  have ac: "listedNames ''A,C'' = [''A'', ''C'']"
    by (simp add: listedNames_def strings_TrimSpace_def unicode_IsSpace_def)
  have 1: "unmarshalEnumString True ?m ''A,B'' = Inr 3"
    using flags_decoding [of ?m "''A,B''" "[1, 2]"] by (simp add: ab)
  have "\<exists>e. unmarshalEnumString True ?m ''A,C'' = Inl e"
    using flags_decoding [of ?m "''A,C''"] by (simp add: ac)
  then obtain e where e: "unmarshalEnumString True ?m ''A,C'' = Inl e" ..
  from flags_decoding [of ?m "''A,C''" _ e] e
  have "e = InvalidEnumValue ''C''" by (auto simp: ac)
  with e 1 show ?thesis by simp
qed

section \<open>Properties: dependency sets\<close>

lemma addType_keeps_self_out:
  assumes "selfName \<notin> fst deps" and "selfName \<notin> snd deps"
  shows "selfName \<notin> fst (addType selfName entitySet complexSet enumSet name deps)
       \<and> selfName \<notin> snd (addType selfName entitySet complexSet enumSet name deps)"
  using assms by (cases deps) (auto simp: addType_def)

lemma fold_addType_keeps_self_out:
  assumes "selfName \<notin> fst deps" and "selfName \<notin> snd deps"
  shows "selfName \<notin> fst (fold (\<lambda>x. addType selfName entitySet complexSet enumSet (f x)) xs deps)
       \<and> selfName \<notin> snd (fold (\<lambda>x. addType selfName entitySet complexSet enumSet (f x)) xs deps)"
  using assms
proof (induction xs arbitrary: deps)
  case Nil
  then show ?case by simp
next
  case (Cons x xs)
  from addType_keeps_self_out [OF Cons.prems]
  have "selfName \<notin> fst (addType selfName entitySet complexSet enumSet (f x) deps)"
    and "selfName \<notin> snd (addType selfName entitySet complexSet enumSet (f x) deps)"
    by simp_all
  from Cons.IH [OF this] show ?case by simp
qed

text \<open>
  Claim C8. For every declaration, whatever its properties and navigation properties
  refer to, its own name is neither in the set of type names nor in the set of
  enumeration names that \<open>collectTypeAndEnumDeps\<close> computes for it.
\<close>

theorem dependency_sets_exclude_self:
  "declName (typDecl t) \<notin> fst (collectTypeAndEnumDeps t entitySet complexSet enumSet)
   \<and> declName (typDecl t) \<notin> snd (collectTypeAndEnumDeps t entitySet complexSet enumSet)"
proof -
  let ?self = "declName (typDecl t)"
  let ?p = "fold (\<lambda>p. addType ?self entitySet complexSet enumSet
                        (extractEdmTypeName (snd (isCollection (propType p)))))
              (declProperties (typDecl t)) ({}, {})"
  have "?self \<notin> fst ?p \<and> ?self \<notin> snd ?p"
    by (rule fold_addType_keeps_self_out) simp_all
  then have "?self \<notin> fst ?p" and "?self \<notin> snd ?p" by simp_all
  from fold_addType_keeps_self_out
    [OF this, of entitySet complexSet enumSet
       "\<lambda>n. extractEdmTypeName (snd (isCollection (navType n)))"
       "declNavigationProperties (typDecl t)"]
  show ?thesis by (simp add: collectTypeAndEnumDeps_def Let_def)
qed

text \<open>An entity \<open>Order\<close> with a property of type \<open>NS.Order\<close> and a navigation property
  of type \<open>Collection(NS.Order)\<close> beside references to \<open>Item\<close> and \<open>Kind\<close>: the sets hold
  \<open>Item\<close> and \<open>Kind\<close> only.\<close>

lemma dependency_sets_example:
  "collectTypeAndEnumDeps
     (EntityTypeOf \<lparr>declName = ''Order'',
        declProperties = [\<lparr>propName = ''Parent'', propType = ''NS.Order'', propNullable = True\<rparr>,
                          \<lparr>propName = ''Kind'', propType = ''NS.Kind'', propNullable = False\<rparr>,
                          \<lparr>propName = ''Id'', propType = ''Edm.Int32'', propNullable = False\<rparr>],
        declNavigationProperties = [\<lparr>navName = ''Children'', navType = ''Collection(NS.Order)''\<rparr>,
                                    \<lparr>navName = ''Items'', navType = ''Collection(NS.Item)''\<rparr>]\<rparr>)
     {''Order'', ''Item''} {} {''Kind''}
   = ({''Item''}, {''Kind''})"
  by code_simp

section \<open>Properties: keys of the ArkType object\<close>





end
